theory Spec2Isabelle
  imports Main "HOL-Library.Sublist"
begin

section \<open>Python strings\<close>

text \<open>
  A Python \<open>str\<close> is modelled as a \<open>string\<close>, each \<open>char\<close> read as one code point
  below 256 (Latin-1). The string methods the program calls are written out with Python's
  semantics: \<open>in\<close>, \<open>startswith\<close>, \<open>endswith\<close>, \<open>lower\<close>, \<open>replace\<close> and \<open>split\<close>.
\<close>

text \<open>\<open>sub in s\<close>: \<open>sub\<close> occurs in \<open>s\<close> at some position.\<close>

fun contains :: "'a list \<Rightarrow> 'a list \<Rightarrow> bool" where
  "contains sub [] = (sub = [])"
| "contains sub (c # cs) = (prefix sub (c # cs) \<or> contains sub cs)"

definition startswith :: "'a list \<Rightarrow> 'a list \<Rightarrow> bool" where
  "startswith s p = prefix p s"

definition endswith :: "'a list \<Rightarrow> 'a list \<Rightarrow> bool" where
  "endswith s p = suffix p s"

text \<open>
  \<open>str.lower\<close> on code points below 256: \<open>A\<close>..\<open>Z\<close> and the accented capitals
  192..222 (but not the multiplication sign 215) move up by 32, which sets the bit of
  value 32 (it is clear in both ranges); every other code point stays.
\<close>

definition lower_char :: "char \<Rightarrow> char" where
  "lower_char c =
     (let n = (of_char c :: nat)
      in if (65 \<le> n \<and> n \<le> 90) \<or> (192 \<le> n \<and> n \<le> 222 \<and> n \<noteq> 215)
         then (case c of Char b0 b1 b2 b3 b4 b5 b6 b7 \<Rightarrow> Char b0 b1 b2 b3 b4 True b6 b7)
         else c)"

definition lower :: "string \<Rightarrow> string" where
  "lower s = map lower_char s"

text \<open>
  \<open>s.replace(old, new)\<close>: one scan from the left; where \<open>old\<close> starts, \<open>new\<close> is
  written and the scan goes on behind that occurrence, so occurrences never overlap and
  the output is not scanned again. With an empty \<open>old\<close> Python writes \<open>new\<close> before every
  character and at the end.
\<close>

function replace_scan :: "'a list \<Rightarrow> 'a list \<Rightarrow> 'a list \<Rightarrow> 'a list" where
  "replace_scan old new [] = []"
| "replace_scan old new (c # cs) =
     (if old \<noteq> [] \<and> prefix old (c # cs)
      then new @ replace_scan old new (drop (length old) (c # cs))
      else c # replace_scan old new cs)"
  by pat_completeness auto
termination
  by (relation "measure (\<lambda>(old, new, s). length s)") (auto simp: neq_Nil_conv)

definition replace :: "'a list \<Rightarrow> 'a list \<Rightarrow> 'a list \<Rightarrow> 'a list" where
  "replace s old new =
     (if old = [] then new @ concat (map (\<lambda>c. c # new) s) else replace_scan old new s)"

text \<open>
  \<open>s.split(sep)\<close> for a non-empty \<open>sep\<close>: the pieces between the occurrences of \<open>sep\<close>
  found by one scan from the left; the result is never empty. \<open>cur\<close> is the piece being
  read. (Python raises \<open>ValueError\<close> for an empty separator; the program only splits
  at \<open>"/"\<close>.)
\<close>

function split_scan :: "'a list \<Rightarrow> 'a list \<Rightarrow> 'a list \<Rightarrow> 'a list list" where
  "split_scan sep cur [] = [cur]"
| "split_scan sep cur (c # cs) =
     (if sep \<noteq> [] \<and> prefix sep (c # cs)
      then cur # split_scan sep [] (drop (length sep) (c # cs))
      else split_scan sep (cur @ [c]) cs)"
  by pat_completeness auto
termination
  by (relation "measure (\<lambda>(sep, cur, s). length s)") (auto simp: neq_Nil_conv)

definition split :: "'a list \<Rightarrow> 'a list \<Rightarrow> 'a list list" where
  "split s sep = split_scan sep [] s"

section \<open>Exceptions\<close>

text \<open>
  The handler has two \<open>except\<close> clauses: one for \<open>SlackApiError\<close> and one for every other
  \<open>Exception\<close>. An exception is its class and the text \<open>str(e)\<close> that the handler quotes.
\<close>

datatype exn = SlackApiError string | Exception string string

fun exn_text :: "exn \<Rightarrow> string" where
  "exn_text (SlackApiError m) = m"
| "exn_text (Exception cls m) = m"

section \<open>The library calls of the Input Resolver\<close>

subsection \<open>\<open>re.search(r'(https?://[^\s]+)', text)\<close>\<close>

text \<open>
  \<open>\s\<close> in a \<open>str\<close> pattern is \<open>str.isspace\<close>: below 256 these are the code points
  9..13, 28..32, 133 and 160.
\<close>

definition is_space :: "char \<Rightarrow> bool" where
  "is_space c =
     (let n = (of_char c :: nat)
      in (9 \<le> n \<and> n \<le> 13) \<or> (28 \<le> n \<and> n \<le> 32) \<or> n = 133 \<or> n = 160)"

text \<open>
  The pattern anchored at the start of \<open>t\<close>: \<open>http\<close>, an optional \<open>s\<close>, \<open>://\<close>, then as
  many non-space characters as there are, at least one.
\<close>

definition match_here :: "string \<Rightarrow> string option" where
  "match_here t =
     (let sch = (if prefix ''https://'' t then ''https://''
                 else if prefix ''http://'' t then ''http://'' else []);
          body = takeWhile (\<lambda>c. \<not> is_space c) (drop (length sch) t)
      in if sch = [] \<or> body = [] then None else Some (sch @ body))"

text \<open>\<open>re.search\<close> tries the start positions from the left and returns the first match.\<close>

fun re_search :: "string \<Rightarrow> string option" where
  "re_search [] = None"
| "re_search (c # cs) =
     (case match_here (c # cs) of Some m \<Rightarrow> Some m | None \<Rightarrow> re_search cs)"

definition extract_url :: "string \<Rightarrow> string option" where
  "extract_url text = re_search text"

subsection \<open>\<open>urllib.parse.urlparse\<close>\<close>

record parse_result =
  scheme :: string
  netloc :: string
  path :: string
  params :: string
  query :: string
  fragment :: string

definition is_ascii_alpha :: "char \<Rightarrow> bool" where
  "is_ascii_alpha c =
     (let n = (of_char c :: nat) in (65 \<le> n \<and> n \<le> 90) \<or> (97 \<le> n \<and> n \<le> 122))"

definition is_scheme_char :: "char \<Rightarrow> bool" where
  "is_scheme_char c =
     (let n = (of_char c :: nat)
      in is_ascii_alpha c \<or> (48 \<le> n \<and> n \<le> 57) \<or> c \<in> set ''+-.'')"

definition uses_params :: "string list" where
  "uses_params = ['''', ''ftp'', ''hdl'', ''prospero'', ''http'', ''imap'', ''https'',
     ''shttp'', ''rtsp'', ''rtspu'', ''sip'', ''sips'', ''mms'', ''sftp'', ''tel'']"

text \<open>\<open>_splitnetloc(url, 2)\<close>: the netloc runs to the first of \<open>/\<close>, \<open>?\<close>, \<open>#\<close>.\<close>

definition splitnetloc :: "string \<Rightarrow> string \<times> string" where
  "splitnetloc url =
     (takeWhile (\<lambda>c. c \<notin> set ''/?#'') (drop 2 url),
      dropWhile (\<lambda>c. c \<notin> set ''/?#'') (drop 2 url))"

text \<open>\<open>url.split(c, 1)\<close> when \<open>c\<close> is in \<open>url\<close>, else \<open>url\<close> and the empty string.\<close>

definition split_once :: "char \<Rightarrow> string \<Rightarrow> string \<times> string" where
  "split_once c url = (takeWhile (\<lambda>x. x \<noteq> c) url, drop 1 (dropWhile (\<lambda>x. x \<noteq> c) url))"

text \<open>
  \<open>urlsplit\<close>: leading C0 controls and spaces are stripped, tab, CR and LF removed, the
  scheme split off, then netloc, fragment and query. An unmatched bracket in the netloc
  raises \<open>ValueError\<close>. What else the library checks on a netloc with both brackets
  depends on its version (the bracketed host must be an IP literal in newer ones): the
  parameter \<open>bracketed_ok\<close> stands for that check. The NFKC check of a non-ASCII netloc
  never fires below code point 256.
\<close>

definition urlsplit :: "(string \<Rightarrow> bool) \<Rightarrow> string \<Rightarrow> exn + parse_result" where
  "urlsplit bracketed_ok url0 =
     (let url1 = dropWhile (\<lambda>c. (of_char c :: nat) \<le> 32) url0;
          url2 = filter (\<lambda>c. c \<notin> set [CHR 0x09, CHR 0x0D, CHR 0x0A]) url1;
          cand = takeWhile (\<lambda>c. c \<noteq> CHR '':'') url2;
          has_scheme = (CHR '':'' \<in> set url2 \<and>
                        (case cand of [] \<Rightarrow> False | c # _ \<Rightarrow> is_ascii_alpha c) \<and>
                        list_all is_scheme_char cand);
          sch = (if has_scheme then lower cand else []);
          url3 = (if has_scheme then drop (Suc (length cand)) url2 else url2);
          nl = (if take 2 url3 = ''//'' then fst (splitnetloc url3) else []);
          url4 = (if take 2 url3 = ''//'' then snd (splitnetloc url3) else url3);
          url5 = fst (split_once CHR ''#'' url4);
          frag = snd (split_once CHR ''#'' url4);
          url6 = fst (split_once CHR ''?'' url5);
          qry = snd (split_once CHR ''?'' url5)
      in if (CHR ''['' \<in> set nl) \<noteq> (CHR '']'' \<in> set nl)
         then Inl (Exception ''ValueError'' ''Invalid IPv6 URL'')
         else if CHR ''['' \<in> set nl \<and> \<not> bracketed_ok nl
         then Inl (Exception ''ValueError'' ''Invalid IPv6 URL'')
         else Inr \<lparr>scheme = sch, netloc = nl, path = url6, params = [],
                   query = qry, fragment = frag\<rparr>)"

text \<open>
  \<open>_splitparams\<close>: the parameters start at the first \<open>;\<close> of the last path segment.
\<close>

definition splitparams :: "string \<Rightarrow> string \<times> string" where
  "splitparams url =
     (if CHR ''/'' \<in> set url then
        (let seg = rev (takeWhile (\<lambda>c. c \<noteq> CHR ''/'') (rev url));
             hd_part = take (length url - length seg) url
         in if CHR '';'' \<notin> set seg then (url, [])
            else (hd_part @ fst (split_once CHR '';'' seg), snd (split_once CHR '';'' seg)))
      else if CHR '';'' \<in> set url then split_once CHR '';'' url
      else (butlast url, url))"

definition urlparse :: "(string \<Rightarrow> bool) \<Rightarrow> string \<Rightarrow> exn + parse_result" where
  "urlparse bracketed_ok url =
     (case urlsplit bracketed_ok url of
        Inl e \<Rightarrow> Inl e
      | Inr r \<Rightarrow>
          if scheme r \<in> set uses_params \<and> CHR '';'' \<in> set (path r)
          then Inr (r\<lparr>path := fst (splitparams (path r)), params := snd (splitparams (path r))\<rparr>)
          else Inr r)"

subsection \<open>\<open>is_pdf_url\<close>\<close>

definition is_pdf_url :: "(string \<Rightarrow> bool) \<Rightarrow> string \<Rightarrow> exn + bool" where
  "is_pdf_url bracketed_ok url =
     (case urlparse bracketed_ok url of
        Inl e \<Rightarrow> Inl e
      | Inr parsed \<Rightarrow> Inr (endswith (lower (path parsed)) ''.pdf''))"

section \<open>Input Resolver\<close>

text \<open>
  The event is a dictionary. \<open>channel\<close>, \<open>user\<close> and \<open>ts\<close> are read with \<open>event[...]\<close> and
  are present in every mention event; \<open>files\<close> and \<open>text\<close> are read with \<open>get\<close> and a
  default, and so are the fields of a file descriptor (a missing one is \<open>None\<close>).
\<close>

record file_info =
  filetype :: "string option"
  url_private_download :: "string option"
  name :: "string option"

record event =
  channel :: string
  user :: string
  ts :: string
  files :: "file_info list"
  ev_text :: "string option"

text \<open>
  Lines 124 to 180 of \<open>handle_mentions\<close> without their \<open>say\<close> calls: which source the event
  names, or why it names none. Nothing here touches the world; \<open>is_pdf_url\<close> can raise.
\<close>

datatype reason = TooManyAttachments | UnsupportedAttachmentType | NoUsableLink | Fault exn

record source =
  file_url :: "string option"
  original_filename :: "string option"

definition resolve :: "(string \<Rightarrow> bool) \<Rightarrow> event \<Rightarrow> exn + (reason + source)" where
  "resolve ok event =
     (case files event of
        [] \<Rightarrow>
          (case extract_url (case ev_text event of None \<Rightarrow> [] | Some t \<Rightarrow> t) of
             None \<Rightarrow> Inr (Inl NoUsableLink)
           | Some url \<Rightarrow>
               if url = [] then Inr (Inl NoUsableLink)
               else (case is_pdf_url ok url of
                       Inl e \<Rightarrow> Inl e
                     | Inr False \<Rightarrow> Inr (Inl NoUsableLink)
                     | Inr True \<Rightarrow>
                         Inr (Inr \<lparr>file_url = Some url,
                                   original_filename = Some (last (split url ''/''))\<rparr>)))
      | [file_info] \<Rightarrow>
          if filetype file_info \<noteq> Some ''pdf'' then Inr (Inl UnsupportedAttachmentType)
          else Inr (Inr \<lparr>file_url = url_private_download file_info,
                         original_filename = name file_info\<rparr>)
      | _ \<Rightarrow> Inr (Inl TooManyAttachments))"

text \<open>Line 182: the name under which the result is published.\<close>

definition optimized_name :: "string \<Rightarrow> string" where
  "optimized_name original = replace original ''.pdf'' [] @ ''_cmp.pdf''"

section \<open>The world outside the program\<close>

text \<open>
  Everything the program reaches through a library is an external call: the Slack client,
  \<open>requests\<close>, the file system, Ghostscript and the Drive service. The world records the
  calls in the order they are issued, and \<open>faults\<close> decides for the n-th call whether it
  raises (a transport error, a rate limit, a missing binary) instead of returning.
\<close>

datatype block = Section string | Image string string

record message =
  msg_text :: string
  thread_ts :: "string option"
  blocks :: "block list"

datatype call =
    UsersInfo string
  | ConversationsInfo string
  | Say message
  | HttpGet string "(string \<times> string) list"
  | WriteFile string string
  | RunGs string string
  | GetDriveService
  | FilesList string
  | CreateFolder string
  | OpenMedia string
  | CreateFile string string
  | CreatePermission string

record drive_file =
  file_id :: string
  file_name :: string
  mime_type :: string
  parents :: "string list"
  trashed :: bool
  anyone_reader :: bool

record world =
  faults :: "nat \<Rightarrow> call \<Rightarrow> exn option"
  bot_token :: string
  users :: "string \<rightharpoonup> string"
  channels :: "string \<rightharpoonup> string"
  web :: "string \<Rightarrow> (string \<times> string) list \<Rightarrow> nat \<times> string"
  gs :: "string option \<Rightarrow> nat \<times> string"
  bracketed_ok :: "string \<Rightarrow> bool"
  new_id :: "nat \<Rightarrow> string"
  fs :: "string \<rightharpoonup> string"
  drive :: "drive_file list"
  calls :: "call list"
  sent :: "message list"

text \<open>A computation reads and updates the world and returns a value or raises.\<close>

type_synonym 'a run = "world \<Rightarrow> (exn + 'a) \<times> world"

definition ret :: "'a \<Rightarrow> 'a run" where
  "ret x w = (Inr x, w)"

definition raise :: "exn \<Rightarrow> 'a run" where
  "raise e w = (Inl e, w)"

definition bnd :: "'a run \<Rightarrow> ('a \<Rightarrow> 'b run) \<Rightarrow> 'b run" where
  "bnd m f w = (case m w of (Inl e, w') \<Rightarrow> (Inl e, w') | (Inr x, w') \<Rightarrow> f x w')"

text \<open>Issuing an external call: it is recorded, then it raises or returns.\<close>

definition ext :: "call \<Rightarrow> unit run" where
  "ext c w =
     (case faults w (length (calls w)) c of
        Some e \<Rightarrow> (Inl e, w\<lparr>calls := calls w @ [c]\<rparr>)
      | None \<Rightarrow> (Inr (), w\<lparr>calls := calls w @ [c]\<rparr>))"

subsection \<open>Slack\<close>

text \<open>\<open>client.users_info(user=...)["user"]["name"]\<close>\<close>

definition users_info :: "string \<Rightarrow> string run" where
  "users_info u =
     bnd (ext (UsersInfo u)) (\<lambda>_ w.
       case users w u of
         None \<Rightarrow> raise (SlackApiError ''user_not_found'') w
       | Some n \<Rightarrow> ret n w)"

text \<open>\<open>client.conversations_info(channel=...)["channel"]["name"]\<close>\<close>

definition conversations_info :: "string \<Rightarrow> string run" where
  "conversations_info c =
     bnd (ext (ConversationsInfo c)) (\<lambda>_ w.
       case channels w c of
         None \<Rightarrow> raise (SlackApiError ''channel_not_found'') w
       | Some n \<Rightarrow> ret n w)"

text \<open>
  \<open>say(text, thread_ts=..., blocks=...)\<close> posts to the event's channel; it is a reply in
  the thread only when \<open>thread_ts\<close> is given. A delivered message is appended to \<open>sent\<close>.
\<close>

definition say :: "message \<Rightarrow> unit run" where
  "say m = bnd (ext (Say m)) (\<lambda>_ w. ret () (w\<lparr>sent := sent w @ [m]\<rparr>))"

section \<open>Acquirer: \<open>download_file\<close>\<close>

text \<open>
  \<open>requests.get\<close> returns the response the web gives for the URL and headers (a status
  code and a body) or raises; \<open>raise_for_status\<close> raises on a 4xx or 5xx status; then the
  body is written to \<open>output_path\<close>.
\<close>

definition download_file :: "string \<Rightarrow> string \<Rightarrow> unit run" where
  "download_file url0 output_path w0 =
     (let url = (if contains ''dropbox.com'' url0
                 then replace (replace url0 ''?d1=0'' ''?d1=1'')
                        ''www.dropbox.com'' ''dl.dropboxusercontent.com''
                 else url0);
          headers = (if contains ''slack.com'' url
                     then [(''Authorization'', ''Bearer '' @ bot_token w0)] else [])
      in bnd (ext (HttpGet url headers)) (\<lambda>_ w.
           if 400 \<le> fst (web w url headers) \<and> fst (web w url headers) < 600
           then raise (Exception ''HTTPError'' (''Error for url: '' @ url)) w
           else bnd (ext (WriteFile output_path (snd (web w url headers)))) (\<lambda>_ w'.
                  ret () (w'\<lparr>fs := (fs w')(output_path \<mapsto> snd (web w url headers))\<rparr>)) w) w0)"

section \<open>Compressor: \<open>optimize_pdf\<close>\<close>

text \<open>
  \<open>subprocess.run([...], check=True)\<close>: Ghostscript reads the input file (if there is
  one), leaves an output file and exits with a status; a status other than 0 raises
  \<open>CalledProcessError\<close>.
\<close>

definition optimize_pdf :: "string \<Rightarrow> string \<Rightarrow> unit run" where
  "optimize_pdf input_file output_file =
     bnd (ext (RunGs input_file output_file)) (\<lambda>_ w.
       if fst (gs w (fs w input_file)) \<noteq> 0
       then raise (Exception ''CalledProcessError'' ''gs returned non-zero exit status'')
              (w\<lparr>fs := (fs w)(output_file \<mapsto> snd (gs w (fs w input_file)))\<rparr>)
       else ret () (w\<lparr>fs := (fs w)(output_file \<mapsto> snd (gs w (fs w input_file)))\<rparr>))"

section \<open>Publisher: \<open>upload_to_drive\<close>\<close>

definition folder_mime :: string where
  "folder_mime = ''application/vnd.google-apps.folder''"

text \<open>
  \<open>files().list(q=...)\<close> with the query the program builds,
  \<open>name='...' and mimeType='application/vnd.google-apps.folder' and trashed=False\<close>:
  the service returns the files with exactly that name and type that are not trashed, in
  the order the drive holds them. The name is pasted between quotes unescaped, so a name
  with a quote or a backslash is no such query; the service rejects it. (Slack channel
  and user names have neither.)
\<close>

definition folder_query :: "string \<Rightarrow> string" where
  "folder_query channel_name =
     ''name='' @ [CHR 0x27] @ channel_name @ [CHR 0x27] @ '' and mimeType='' @ [CHR 0x27]
       @ folder_mime @ [CHR 0x27] @ '' and trashed=False''"

definition files_list :: "string \<Rightarrow> drive_file list run" where
  "files_list channel_name =
     bnd (ext (FilesList (folder_query channel_name))) (\<lambda>_ w.
       if CHR 0x27 \<in> set channel_name \<or> CHR 0x5C \<in> set channel_name
       then raise (Exception ''HttpError'' ''Invalid query'') w
       else ret (filter (\<lambda>f. file_name f = channel_name \<and> mime_type f = folder_mime
                              \<and> \<not> trashed f) (drive w)) w)"

text \<open>\<open>files().create\<close> of a folder: a new object with a new id.\<close>

definition create_folder :: "string \<Rightarrow> string run" where
  "create_folder channel_name =
     bnd (ext (CreateFolder channel_name)) (\<lambda>_ w.
       ret (new_id w (length (drive w)))
         (w\<lparr>drive := drive w @ [\<lparr>file_id = new_id w (length (drive w)),
               file_name = channel_name, mime_type = folder_mime, parents = [],
               trashed = False, anyone_reader = False\<rparr>]\<rparr>))"

text \<open>\<open>MediaFileUpload(file_path, ...)\<close> opens the file; the upload creates the object.\<close>

definition create_file :: "string \<Rightarrow> string \<Rightarrow> string \<Rightarrow> string run" where
  "create_file file_path filename folder_id =
     bnd (ext (OpenMedia file_path)) (\<lambda>_ w0.
       case fs w0 file_path of
         None \<Rightarrow> raise (Exception ''FileNotFoundError'' file_path) w0
       | Some _ \<Rightarrow>
           bnd (ext (CreateFile filename folder_id)) (\<lambda>_ w.
             ret (new_id w (length (drive w)))
               (w\<lparr>drive := drive w @ [\<lparr>file_id = new_id w (length (drive w)),
                     file_name = filename, mime_type = ''application/pdf'',
                     parents = [folder_id], trashed = False, anyone_reader = False\<rparr>]\<rparr>)) w0)"

definition create_permission :: "string \<Rightarrow> unit run" where
  "create_permission fid =
     bnd (ext (CreatePermission fid)) (\<lambda>_ w.
       ret () (w\<lparr>drive := map (\<lambda>f. if file_id f = fid then f\<lparr>anyone_reader := True\<rparr> else f)
                             (drive w)\<rparr>))"

definition upload_to_drive :: "string \<Rightarrow> string \<Rightarrow> string \<Rightarrow> string run" where
  "upload_to_drive file_path filename channel_name =
     bnd (ext GetDriveService) (\<lambda>_.
     bnd (files_list channel_name) (\<lambda>items.
     bnd (case items of f # _ \<Rightarrow> ret (file_id f) | [] \<Rightarrow> create_folder channel_name)
       (\<lambda>folder_id.
     bnd (create_file file_path filename folder_id) (\<lambda>fid.
     bnd (create_permission fid) (\<lambda>_.
     ret (''https://drive.google.com/file/d/'' @ fid @ ''/view''))))))"

section \<open>Dialogue Controller: \<open>handle_mentions\<close>\<close>

subsection \<open>The replies\<close>

definition too_many_message :: message where
  "too_many_message =
     \<lparr>msg_text = ''Easy now... only one PDF at a time there cowboy...'',
      thread_ts = None, blocks = []\<rparr>"

definition unsupported_message :: "string \<Rightarrow> message" where
  "unsupported_message t =
     \<lparr>msg_text = ''that doesn't work... (say text)'', thread_ts = Some t,
      blocks = [Section ''that doesn't work... no, just not gonna work...'',
        Image ''https://media0.giphy.com/media/3ofT5Mn9OWRL8PBR3G/giphy.gif?cid=6104955ekf2b8za2cpu76xsyw30rkt6t0un1zv34sjadqej6&ep=v1_gifs_translate&rid=giphy.gif&ct=g''
          ''that doesn't work... (alt text) '']\<rparr>"

definition wrong_link_message :: "string \<Rightarrow> message" where
  "wrong_link_message t =
     \<lparr>msg_text = ''that doesn't work... (say text)'', thread_ts = Some t,
      blocks = [Section ''this is not the right kind of link... '',
        Image ''https://media1.giphy.com/media/rGEIoqUoIMPylWCwpk/giphy.gif?cid=6104955ep67fn4nxcm80fdb4w0u2jp7oy0n1yxer3d00b8fy&ep=v1_gifs_translate&rid=giphy.gif&ct=g''
          ''wrong link'']\<rparr>"

definition working_message :: "string \<Rightarrow> message" where
  "working_message t =
     \<lparr>msg_text = ''working on that... '', thread_ts = Some t,
      blocks = [Section ''working on that... '',
        Image ''https://media3.giphy.com/media/tQliIp3sn1T44/giphy-downsized.gif?cid=6104955etizadp34ibga9hdrby8n5m00ckb3cgw2lx8767uk&ep=v1_gifs_translate&rid=giphy-downsized.gif&ct=g''
          ''compressing plans'']\<rparr>"

definition final_message :: "string \<Rightarrow> string \<Rightarrow> message" where
  "final_message drive_link t =
     \<lparr>msg_text = ''Here's your optimized file: <'' @ drive_link @ ''|Download it here>'',
      thread_ts = Some t, blocks = []\<rparr>"

definition problem_message :: "string \<Rightarrow> message" where
  "problem_message t =
     \<lparr>msg_text = ''that doesn't work... (say text)'', thread_ts = Some t,
      blocks = [Section ''uh oh... we have a problem '',
        Image ''https://media0.giphy.com/media/4Hx5nJBfi8FzFWxztb/giphy.gif?cid=6104955edjxje2ph9k20j8jcftmvubvf7xkrjozeg84x19nv&ep=v1_gifs_translate&rid=giphy.gif&ct=g''
          ''we have a problem'']\<rparr>"

text \<open>The first reply of an \<open>except\<close> clause quotes the exception.\<close>

fun exception_message :: "exn \<Rightarrow> message" where
  "exception_message (SlackApiError m) =
     \<lparr>msg_text = ''Something went wrong while processing the file: '' @ m,
      thread_ts = None, blocks = []\<rparr>"
| "exception_message (Exception cls m) =
     \<lparr>msg_text = ''An unexpected error occurred: '' @ m, thread_ts = None, blocks = []\<rparr>"

text \<open>The reply that goes with a rejection.\<close>

fun rejection_message :: "reason \<Rightarrow> string \<Rightarrow> message" where
  "rejection_message TooManyAttachments t = too_many_message"
| "rejection_message UnsupportedAttachmentType t = unsupported_message t"
| "rejection_message NoUsableLink t = wrong_link_message t"
| "rejection_message (Fault e) t = problem_message t"

subsection \<open>The pipeline and the handler\<close>

text \<open>
  The handler returns nothing; the model's result names the exit it took: the final reply
  was sent (\<open>Done\<close>), the run ended after a rejection or in an \<open>except\<close> clause
  (\<open>Failed\<close>), or an exception left the handler (\<open>Escaped\<close>).
\<close>

datatype outcome = Done string | Failed reason | Escaped exn

text \<open>
  Lines 182 to 206. A missing \<open>name\<close> makes \<open>original_filename.replace\<close> raise
  \<open>AttributeError\<close>; a missing \<open>url_private_download\<close> makes \<open>"dropbox.com" in url\<close>
  raise \<open>TypeError\<close>.
\<close>

definition pipeline :: "event \<Rightarrow> string \<Rightarrow> source \<Rightarrow> outcome run" where
  "pipeline event folder_name src =
     (case original_filename src of
        None \<Rightarrow> raise (Exception ''AttributeError'' ''NoneType object has no attribute replace'')
      | Some original \<Rightarrow>
          bnd (case file_url src of
                 None \<Rightarrow> raise (Exception ''TypeError'' ''argument of type NoneType is not iterable'')
               | Some u \<Rightarrow> download_file u ''/tmp/original.pdf'') (\<lambda>_.
          bnd (say (working_message (ts event))) (\<lambda>_.
          bnd (optimize_pdf ''/tmp/original.pdf'' ''/tmp/original_cmp.pdf'') (\<lambda>_.
          bnd (upload_to_drive ''/tmp/original_cmp.pdf'' (optimized_name original) folder_name)
            (\<lambda>drive_link.
          bnd (say (final_message drive_link (ts event))) (\<lambda>_.
          ret (Done drive_link)))))))"

text \<open>The body of \<open>try\<close>, lines 112 to 206.\<close>

definition try_block :: "event \<Rightarrow> outcome run" where
  "try_block event =
     bnd (if startswith (channel event) ''D'' then users_info (user event)
          else conversations_info (channel event)) (\<lambda>folder_name w.
       (case resolve (bracketed_ok w) event of
          Inl e \<Rightarrow> raise e
        | Inr (Inl r) \<Rightarrow> bnd (say (rejection_message r (ts event))) (\<lambda>_. ret (Failed r))
        | Inr (Inr src) \<Rightarrow> pipeline event folder_name src) w)"

text \<open>
  Either \<open>except\<close> clause, lines 208 to 249: two replies. An exception raised by one of
  them is raised inside the clause, where no handler is left to catch it.
\<close>

definition except_clause :: "exn \<Rightarrow> event \<Rightarrow> world \<Rightarrow> outcome \<times> world" where
  "except_clause e event w =
     (case bnd (say (exception_message e)) (\<lambda>_. say (problem_message (ts event))) w of
        (Inl e', w') \<Rightarrow> (Escaped e', w')
      | (Inr _, w') \<Rightarrow> (Failed (Fault e), w'))"

definition handle_mentions :: "event \<Rightarrow> world \<Rightarrow> outcome \<times> world" where
  "handle_mentions event w =
     (case try_block event w of
        (Inr out, w') \<Rightarrow> (out, w')
      | (Inl e, w') \<Rightarrow> except_clause e event w')"

section \<open>Notions of the specification\<close>

text \<open>
  Deleting \<open>old\<close> from a string in one pass from the left: either \<open>old\<close> does not occur
  and the string stays, or the string is \<open>a @ old @ b\<close> where this is the first place
  \<open>old\<close> occurs, and the result is \<open>a\<close> followed by what the pass makes of \<open>b\<close>.
\<close>

inductive deleted :: "'a list \<Rightarrow> 'a list \<Rightarrow> 'a list \<Rightarrow> bool" where
  none_left: "\<not> contains old s \<Longrightarrow> deleted old s s"
| first_gone: "\<not> contains old (a @ butlast old) \<Longrightarrow> deleted old b b' \<Longrightarrow>
     deleted old (a @ old @ b) (a @ b')"



section \<open>Example events\<close>



section \<open>Properties\<close>

subsection \<open>Strings\<close>

lemma prefix_app_len: "prefix old (u @ v) \<Longrightarrow> length old \<le> length u \<Longrightarrow> prefix old u"
  by (metis prefix_length_prefix prefixI)

lemma contains_iff: "contains sub s \<longleftrightarrow> (\<exists>a b. s = a @ sub @ b)"
proof (induction s)
  case Nil then show ?case by auto
next
  case (Cons c cs)
  show ?case
  proof
    assume "contains sub (c # cs)"
    then consider "prefix sub (c # cs)" | "contains sub cs" by auto
    then show "\<exists>a b. c # cs = a @ sub @ b"
    proof cases
      case 1 then obtain b where "c # cs = sub @ b" by (auto simp: prefix_def)
      then have "c # cs = [] @ sub @ b" by simp
      then show ?thesis by blast
    next
      case 2 then obtain a b where "cs = a @ sub @ b" using Cons.IH by auto
      then have "c # cs = (c # a) @ sub @ b" by simp
      then show ?thesis by blast
    qed
  next
    assume "\<exists>a b. c # cs = a @ sub @ b"
    then obtain a b where ab: "c # cs = a @ sub @ b" by auto
    show "contains sub (c # cs)"
    proof (cases a)
      case Nil
      with ab have "prefix sub (c # cs)" by (simp add: prefix_def)
      then show ?thesis by simp
    next
      case (Cons x a') with ab have "cs = a' @ sub @ b" by simp
      then show ?thesis using Cons.IH by auto
    qed
  qed
qed

lemma contains_prefix: "prefix sub s \<Longrightarrow> contains sub s"
  by (cases s) auto

lemma contains_length: "contains sub s \<Longrightarrow> length sub \<le> length s"
  by (auto simp: contains_iff)

lemma not_contains_butlast: "old \<noteq> [] \<Longrightarrow> \<not> contains old (butlast old)"
  using contains_length[of old "butlast old"] by (cases old) auto

lemma replace_scan_none: "\<not> contains old s \<Longrightarrow> replace_scan old new s = s"
  by (induction s) auto

lemma replace_scan_first:
  assumes "old \<noteq> []" "\<not> contains old (a @ butlast old)"
  shows "replace_scan old new (a @ old @ b) = a @ new @ replace_scan old new b"
  using assms(2)
proof (induction a)
  case Nil
  obtain c cs where o: "old = c # cs" using assms(1) by (cases old) auto
  have "replace_scan old new (old @ b) = new @ replace_scan old new (drop (length old) (old @ b))"
    unfolding o by simp
  then show ?case by simp
next
  case (Cons x a)
  have np: "\<not> prefix old (x # a @ old @ b)"
  proof
    assume p: "prefix old (x # a @ old @ b)"
    have "x # a @ old @ b = (x # a @ butlast old) @ (last old # b)"
      using assms(1) by simp
    moreover have "length old \<le> length (x # a @ butlast old)" by simp
    ultimately have "prefix old (x # a @ butlast old)"
      using p prefix_app_len by metis
    then have "contains old ((x # a) @ butlast old)" using contains_prefix by fastforce
    with Cons.prems show False by simp
  qed
  have "\<not> contains old (a @ butlast old)" using Cons.prems by simp
  then show ?case using Cons.IH np by simp
qed

lemma deleted_unique: "deleted old s d \<Longrightarrow> old \<noteq> [] \<Longrightarrow> replace_scan old [] s = d"
proof (induction rule: deleted.induct)
  case (none_left old s)
  then show ?case by (simp add: replace_scan_none)
next
  case (first_gone old a b b')
  then show ?case using replace_scan_first[of old a "[]" b] by simp
qed

lemma deleted_Cons:
  assumes "deleted old cs r" "\<not> prefix old (c # cs)" "old \<noteq> []"
  shows "deleted old (c # cs) (c # r)"
  using assms
proof (cases rule: deleted.cases)
  case none_left
  then show ?thesis using assms(2) by (simp add: deleted.none_left)
next
  case (first_gone a b b')
  have "\<not> contains old ((c # a) @ butlast old)"
  proof
    assume "contains old ((c # a) @ butlast old)"
    then have "prefix old (c # a @ butlast old)" using first_gone(3) by simp
    then have "prefix old ((c # a @ butlast old) @ (last old # b))"
      using prefix_prefix by blast
    moreover have "(c # a @ butlast old) @ (last old # b) = c # cs"
      using first_gone(1) assms(3) by simp
    ultimately show False using assms(2) by simp
  qed
  then have "deleted old ((c # a) @ old @ b) ((c # a) @ b')"
    using first_gone(4) by (rule deleted.first_gone)
  then show ?thesis using first_gone by simp
qed

lemma deleted_exists: "old \<noteq> [] \<Longrightarrow> deleted old s (replace_scan old [] s)"
proof (induction old "[] :: 'a list" s rule: replace_scan.induct)
  case (1 old)
  then show ?case by (simp add: deleted.none_left)
next
  case (2 old c cs)
  show ?case
  proof (cases "prefix old (c # cs)")
    case True
    then obtain b where b: "c # cs = old @ b" by (auto simp: prefix_def)
    then have d: "drop (length old) (c # cs) = b" by simp
    have "deleted old b (replace_scan old [] b)" using 2(1) 2(3) True d by simp
    then have "deleted old ([] @ old @ b) ([] @ replace_scan old [] b)"
      using not_contains_butlast[OF 2(3)] deleted.first_gone[of old "[]"] by simp
    moreover have "replace_scan old [] (c # cs) = replace_scan old [] b"
      using replace_scan_first[of old "[]" "[]" b] not_contains_butlast[OF 2(3)] 2(3) b by simp
    ultimately show ?thesis using b by simp
  next
    case False
    then have "deleted old cs (replace_scan old [] cs)" using 2(2) 2(3) by simp
    then show ?thesis using False 2(3) deleted_Cons by simp
  qed
qed

subsection \<open>The published file name\<close>

text \<open>
  Claim C10, as amended. The published name is the display name with \<open>.pdf\<close> deleted in
  one pass from the left (every occurrence the pass meets, not only a trailing one),
  followed by \<open>_cmp.pdf\<close>: \<open>d\<close> is the result of that pass exactly when the published
  name is \<open>d @ ''_cmp.pdf''\<close>. Nothing is said of occurrences that the deletion itself
  puts together.
\<close>

theorem optimized_name_single_pass:
  "deleted ''.pdf'' original d \<longleftrightarrow> optimized_name original = d @ ''_cmp.pdf''"
proof
  assume "deleted ''.pdf'' original d"
  then show "optimized_name original = d @ ''_cmp.pdf''"
    using deleted_unique[of "''.pdf''" original d] by (simp add: optimized_name_def replace_def)
next
  assume "optimized_name original = d @ ''_cmp.pdf''"
  then have "d = replace_scan ''.pdf'' [] original"
    by (simp add: optimized_name_def replace_def)
  then show "deleted ''.pdf'' original d"
    using deleted_exists[of "''.pdf''" original] by simp
qed

text \<open>
  At the name \<open>plan.pdf.v2.pdf\<close>: both occurrences go, the interior one included.
\<close>

theorem optimized_name_single_pass_witness:
  "deleted ''.pdf'' ''plan.pdf.v2.pdf'' ''plan.v2'' \<and>
   optimized_name ''plan.pdf.v2.pdf'' = ''plan.v2_cmp.pdf''"
proof -
  have e: "optimized_name ''plan.pdf.v2.pdf'' = ''plan.v2'' @ ''_cmp.pdf''"
    by (simp add: optimized_name_def replace_def)
  then show ?thesis
    using optimized_name_single_pass[of "''plan.pdf.v2.pdf''" "''plan.v2''"] by simp
qed

text \<open>
  Claim C10 as stated fails: for the display name \<open>a.p.pdfdf.pdf\<close> the pass deletes two
  occurrences and what is left reads \<open>a.pdf\<close>, so the published name \<open>a.pdf_cmp.pdf\<close>
  has \<open>.pdf\<close> before its suffix.
\<close>

theorem optimized_name_keeps_pdf_counterexample:
  "optimized_name ''a.p.pdfdf.pdf'' = ''a.pdf_cmp.pdf'' \<and>
   contains ''.pdf'' (take (length (optimized_name ''a.p.pdfdf.pdf'') - length ''_cmp.pdf'')
      (optimized_name ''a.p.pdfdf.pdf''))"
  by (simp add: optimized_name_def replace_def)

subsection \<open>The link in a message\<close>

















subsection \<open>The display file name\<close>




end
